theory Spec2Isabelle
  imports Main
begin

section \<open>Values kept in the extension's storage\<close>

text \<open>
  Shared type definitions of the extension (\<^verbatim>\<open>pos\<close>, \<^verbatim>\<open>Word\<close>, \<^verbatim>\<open>Meaning\<close>,
  \<^verbatim>\<open>Media\<close>) and the \<^verbatim>\<open>WordData\<close> interface of the background script and of
  \<^verbatim>\<open>lib/api.ts\<close>.
\<close>

datatype pos =
  noun | pronoun | intransitiveVerb | transitiveVerb | adjective | adverb
  | auxiliaryVerb | preposition | article | interjection | conjunction | idiom

record Word =
  wordId :: string
  word_text :: string
  coreMeaning :: string
  explanation :: string

record Meaning =
  meaningId :: string
  meaning_pos :: pos
  translation :: string
  pronunciation :: string
  exampleEng :: string
  exampleJpn :: string

record Media =
  mediaId :: string
  media_meaningId :: string
  mediaUrls :: "string list"

record WordData =
  flashcardId :: string
  word :: Word
  meanings :: "Meaning list"
  media :: Media

text \<open>
  \<^verbatim>\<open>browser.storage.local\<close> holds JSON values under string keys. The universe of the
  model is: the primitives, and objects whose properties are primitives or word-data
  objects. A word-data object is a \<^verbatim>\<open>WordData\<close> together with its \<^verbatim>\<open>cachedAt\<close>
  property when it has one (\<^verbatim>\<open>CachedWordData\<close>, \<^verbatim>\<open>StoredWordData\<close>). The word cache
  (\<^verbatim>\<open>Record<string, CachedWordData>\<close>) and the current-word object
  (\<^verbatim>\<open>{word, data, timestamp}\<close>) are both such objects. Objects are finite maps of
  their own properties; what they inherit from \<^verbatim>\<open>Object.prototype\<close> is the same for
  all of them and is listed below. \<open>JBuiltin n\<close> is the member of
  \<^verbatim>\<open>Object.prototype\<close> named \<open>n\<close>, a value a property read can return: a function,
  or for \<^verbatim>\<open>__proto__\<close> the prototype object itself.
\<close>

datatype jsfield =
  FNull | FBool bool | FNum int | FStr string | FWord WordData "int option"

datatype jsval =
  JNull | JBool bool | JNum int | JStr string | JObj "string \<rightharpoonup> jsfield"
  | JBuiltin string

text \<open>JavaScript truthiness, as used by \<^verbatim>\<open>||\<close>, \<^verbatim>\<open>&&\<close> and \<^verbatim>\<open>!\<close>.\<close>

fun truthy :: "jsval \<Rightarrow> bool" where
  "truthy JNull = False"
| "truthy (JBool b) = b"
| "truthy (JNum n) = (n \<noteq> 0)"
| "truthy (JStr s) = (s \<noteq> [])"
| "truthy (JObj m) = True"
| "truthy (JBuiltin n) = True"

fun field_truthy :: "jsfield \<Rightarrow> bool" where
  "field_truthy FNull = False"
| "field_truthy (FBool b) = b"
| "field_truthy (FNum n) = (n \<noteq> 0)"
| "field_truthy (FStr s) = (s \<noteq> [])"
| "field_truthy (FWord d c) = True"

text \<open>\<^verbatim>\<open>x || null\<close> for a property read \<^verbatim>\<open>x\<close> (\<open>None\<close> is \<^verbatim>\<open>undefined\<close> on the left and
  \<^verbatim>\<open>null\<close> on the right).\<close>

definition or_null :: "jsval option \<Rightarrow> jsval option" where
  "or_null x = (case x of None \<Rightarrow> None | Some v \<Rightarrow> if truthy v then Some v else None)"

text \<open>\<^verbatim>\<open>x || {}\<close>.\<close>

definition or_empty_object :: "jsval option \<Rightarrow> jsval" where
  "or_empty_object x = (case x of None \<Rightarrow> JObj Map.empty | Some v \<Rightarrow> if truthy v then v else JObj Map.empty)"

text \<open>The names of the members of \<^verbatim>\<open>Object.prototype\<close>, which every plain object
  inherits.\<close>

definition Object_prototype :: "string list" where
  "Object_prototype =
     [''constructor'', ''hasOwnProperty'', ''isPrototypeOf'', ''propertyIsEnumerable'',
      ''toLocaleString'', ''toString'', ''valueOf'', ''__proto__'',
      ''__defineGetter__'', ''__defineSetter__'', ''__lookupGetter__'', ''__lookupSetter__'']"

text \<open>\<^verbatim>\<open>result[key]\<close> for the plain object \<^verbatim>\<open>result\<close> with the given own properties:
  the own property when there is one, else the inherited member when the key names
  one, else \<^verbatim>\<open>undefined\<close>. For a key that names no such member, as each of the
  fixed storage keys, this is the lookup among the own properties.\<close>

definition js_member :: "(string \<rightharpoonup> jsval) \<Rightarrow> string \<Rightarrow> jsval option" where
  "js_member obj key =
     (case obj key of
        Some v \<Rightarrow> Some v
      | None \<Rightarrow> if key \<in> set Object_prototype then Some (JBuiltin key) else None)"

text \<open>
  \<^verbatim>\<open>cache[word]\<close>, as far as the freshness test can tell. A primitive has no own
  property except a string's length and indices, and those, like every inherited
  member (of a plain object, of a primitive or of a builtin), are values without a
  \<^verbatim>\<open>cachedAt\<close>: they fail the freshness test exactly as \<^verbatim>\<open>undefined\<close> does and are
  read as \<open>None\<close>.
\<close>

fun js_index :: "jsval \<Rightarrow> string \<Rightarrow> jsfield option" where
  "js_index (JObj m) k = m k"
| "js_index _ k = None"

text \<open>\<^verbatim>\<open>x.cachedAt\<close> as a number; \<open>None\<close> when the property is missing (the subtraction
  then gives \<^verbatim>\<open>NaN\<close>).\<close>

fun field_cachedAt :: "jsfield \<Rightarrow> int option" where
  "field_cachedAt (FWord d c) = c"
| "field_cachedAt _ = None"

datatype error =
  StorageError
  | NetworkError
  | HttpError nat
  | SyntaxError
  | TypeError
  | UndefinedThrown
  | RuntimeError string

text \<open>
  \<^verbatim>\<open>cache[word] = v\<close> in a module (strict mode), for an object \<^verbatim>\<open>v\<close>. On a plain
  object the own property is set, with one exception: the name \<^verbatim>\<open>__proto__\<close>, when
  the object has no own property of that name, is the inherited accessor, and the
  assignment replaces the prototype of the object and gives it no own property, so
  that nothing more is written when the object goes to the store. On a primitive the
  assignment throws a TypeError. A builtin is an object as well: the assignment acts
  on the builtin, which stays that builtin.
\<close>

fun js_assign :: "jsval \<Rightarrow> string \<Rightarrow> jsfield \<Rightarrow> error + jsval" where
  "js_assign (JObj m) k v =
     (if k = ''__proto__'' \<and> m k = None then Inr (JObj m) else Inr (JObj (m(k \<mapsto> v))))"
| "js_assign (JBuiltin n) k v = Inr (JBuiltin n)"
| "js_assign _ k v = Inl TypeError"

section \<open>The browser\<close>

text \<open>
  One record holds everything outside the functions: the contents of
  \<^verbatim>\<open>browser.storage.local\<close>, the network, the messages sent and the React state of
  the popup. A storage call may reject: \<open>storage_rejects w i\<close> says whether the
  \<open>i\<close>-th call does, and a rejected call changes nothing. \<open>network w i\<close> is the
  outcome of the \<open>i\<close>-th \<^verbatim>\<open>fetch\<close>; \<open>fetch_log\<close> lists the requests issued, the
  latest first. The type \<open>'b\<close> is the type of the JSON bodies the server answers with.
\<close>

text \<open>
  A request is kept in parts: \<open>WordEndpoint w\<close> is the path
  \<^verbatim>\<open>/word/${encodeURIComponent(w)}\<close> and \<open>AddFlashcardEndpoint\<close> is
  \<^verbatim>\<open>/user/add/usingFlashcard\<close>; \<open>req_bearer\<close> is the value written into the
  \<^verbatim>\<open>Authorization: Bearer\<close> header when the header is sent; \<open>req_body\<close> is the
  object \<^verbatim>\<open>{userId, flashcardId}\<close> given to \<^verbatim>\<open>JSON.stringify\<close>.
\<close>

datatype endpoint =
  WordEndpoint string
  | AddFlashcardEndpoint

record request =
  req_method :: string
  req_base :: string
  req_endpoint :: endpoint
  req_bearer :: "jsval option"
  req_body :: "(jsval option \<times> string) option"

datatype 'b fetch_result =
  FetchFailed
  | Response nat "'b option"

text \<open>\<^verbatim>\<open>WORD_DETECTED{word, url, timestamp}\<close> and \<^verbatim>\<open>ADD_FLASHCARD{flashcardId}\<close>.\<close>

datatype message =
  WORD_DETECTED string string int
  | ADD_FLASHCARD string

text \<open>The texts the popup shows: the two fixed texts of \<^verbatim>\<open>fetchWordData\<close> and the
  message of a caught error.\<close>

datatype notice =
  InvalidWordNotice
  | FetchFailedNotice
  | ErrorNotice error

record 'b world =
  storage_local :: "string \<rightharpoonup> jsval"
  storage_calls :: nat
  storage_rejects :: "nat \<Rightarrow> bool"
  fetch_log :: "request list"
  network :: "nat \<Rightarrow> 'b fetch_result"
  delays :: "nat list"
  sent :: "message list"
  send_rejects :: "nat \<Rightarrow> string option"
  timers :: "nat list"
  ui_currentWord :: "jsval option"
  ui_isLoading :: bool
  ui_error :: "notice option"

text \<open>An asynchronous function either resolves (\<open>Inr\<close>) or rejects (\<open>Inl\<close>), and
  leaves a new world.\<close>

type_synonym ('a, 'b) io = "'b world \<Rightarrow> (error + 'a) \<times> 'b world"

definition resolve :: "'a \<Rightarrow> ('a, 'b) io" where
  "resolve x = (\<lambda>w. (Inr x, w))"

definition reject :: "error \<Rightarrow> ('a, 'b) io" where
  "reject e = (\<lambda>w. (Inl e, w))"

definition await :: "('a, 'b) io \<Rightarrow> ('a \<Rightarrow> ('c, 'b) io) \<Rightarrow> ('c, 'b) io" where
  "await m f = (\<lambda>w. case m w of (Inl e, w') \<Rightarrow> (Inl e, w') | (Inr x, w') \<Rightarrow> f x w')"

definition try_catch :: "('a, 'b) io \<Rightarrow> (error \<Rightarrow> ('a, 'b) io) \<Rightarrow> ('a, 'b) io" where
  "try_catch m h = (\<lambda>w. case m w of (Inl e, w') \<Rightarrow> h e w' | (Inr x, w') \<Rightarrow> (Inr x, w'))"

definition storage_call :: "('b world \<Rightarrow> 'a \<times> 'b world) \<Rightarrow> ('a, 'b) io" where
  "storage_call effect = (\<lambda>w.
     let w' = w\<lparr>storage_calls := Suc (storage_calls w)\<rparr>
     in if storage_rejects w (storage_calls w) then (Inl StorageError, w')
        else (case effect w' of (x, w'') \<Rightarrow> (Inr x, w'')))"

definition storage_local_get :: "string list \<Rightarrow> (string \<rightharpoonup> jsval, 'b) io" where
  "storage_local_get keys = storage_call (\<lambda>w. (storage_local w |` set keys, w))"

definition storage_local_set :: "(string \<rightharpoonup> jsval) \<Rightarrow> (unit, 'b) io" where
  "storage_local_set items =
     storage_call (\<lambda>w. ((), w\<lparr>storage_local := storage_local w ++ items\<rparr>))"

definition storage_local_remove :: "string list \<Rightarrow> (unit, 'b) io" where
  "storage_local_remove keys =
     storage_call (\<lambda>w. ((), w\<lparr>storage_local := storage_local w |` (- set keys)\<rparr>))"

definition storage_local_clear :: "(unit, 'b) io" where
  "storage_local_clear = storage_call (\<lambda>w. ((), w\<lparr>storage_local := Map.empty\<rparr>))"

section \<open>lib/storage.ts\<close>

abbreviation AUTH_TOKEN :: string where "AUTH_TOKEN \<equiv> ''authToken''"
abbreviation USER_ID :: string where "USER_ID \<equiv> ''userId''"
abbreviation USER_EMAIL :: string where "USER_EMAIL \<equiv> ''userEmail''"
abbreviation CURRENT_WORD :: string where "CURRENT_WORD \<equiv> ''currentWord''"
abbreviation WORD_CACHE :: string where "WORD_CACHE \<equiv> ''wordCache''"

subsection \<open>StorageManager\<close>

definition StorageManager_get :: "string \<Rightarrow> (jsval option, 'b) io" where
  "StorageManager_get key =
     try_catch
       (await (storage_local_get [key]) (\<lambda>result. resolve (or_null (js_member result key))))
       (\<lambda>error. resolve None)"

definition StorageManager_getMultiple :: "string list \<Rightarrow> (string \<rightharpoonup> jsval, 'b) io" where
  "StorageManager_getMultiple keys =
     try_catch
       (await (storage_local_get keys) (\<lambda>result. resolve result))
       (\<lambda>error. resolve Map.empty)"

definition StorageManager_set :: "string \<Rightarrow> jsval \<Rightarrow> (unit, 'b) io" where
  "StorageManager_set key v =
     try_catch (storage_local_set [key \<mapsto> v]) (\<lambda>error. resolve ())"

definition StorageManager_setMultiple :: "(string \<rightharpoonup> jsval) \<Rightarrow> (unit, 'b) io" where
  "StorageManager_setMultiple data =
     try_catch (storage_local_set data) (\<lambda>error. resolve ())"

definition StorageManager_remove :: "string \<Rightarrow> (unit, 'b) io" where
  "StorageManager_remove key =
     try_catch (storage_local_remove [key]) (\<lambda>error. resolve ())"

definition StorageManager_removeMultiple :: "string list \<Rightarrow> (unit, 'b) io" where
  "StorageManager_removeMultiple keys =
     try_catch (storage_local_remove keys) (\<lambda>error. resolve ())"

definition StorageManager_clear :: "(unit, 'b) io" where
  "StorageManager_clear = try_catch storage_local_clear (\<lambda>error. resolve ())"

subsection \<open>authStorage\<close>

text \<open>\<^verbatim>\<open>AuthData\<close>: the interface declares three strings; at run time the fields hold
  whatever the store holds, so they are values.\<close>

record AuthData =
  token :: jsval
  userId :: jsval
  email :: jsval

definition authStorage_setAuthData :: "AuthData \<Rightarrow> (unit, 'b) io" where
  "authStorage_setAuthData authData =
     StorageManager_setMultiple
       [AUTH_TOKEN \<mapsto> token authData, USER_ID \<mapsto> userId authData,
        USER_EMAIL \<mapsto> email authData]"

definition authStorage_getAuthData :: "(AuthData option, 'b) io" where
  "authStorage_getAuthData =
     await (StorageManager_getMultiple [AUTH_TOKEN, USER_ID, USER_EMAIL]) (\<lambda>data.
       case (data AUTH_TOKEN, data USER_ID, data USER_EMAIL) of
         (Some authToken, Some uid, Some userEmail) \<Rightarrow>
           if truthy authToken \<and> truthy uid \<and> truthy userEmail
           then resolve (Some \<lparr>token = authToken, userId = uid, email = userEmail\<rparr>)
           else resolve None
       | _ \<Rightarrow> resolve None)"

definition authStorage_clearAuthData :: "(unit, 'b) io" where
  "authStorage_clearAuthData =
     StorageManager_removeMultiple [AUTH_TOKEN, USER_ID, USER_EMAIL]"

subsection \<open>wordCacheStorage\<close>

definition CACHE_EXPIRY :: int where
  "CACHE_EXPIRY = 60 * 60 * 1000"

text \<open>\<^verbatim>\<open>cachedData && Date.now() - cachedData.cachedAt < CACHE_EXPIRY\<close>; a comparison
  with \<^verbatim>\<open>NaN\<close> is false.\<close>

definition cache_fresh :: "int \<Rightarrow> jsfield option \<Rightarrow> bool" where
  "cache_fresh now cachedData =
     (case cachedData of
        None \<Rightarrow> False
      | Some d \<Rightarrow> field_truthy d \<and>
          (case field_cachedAt d of None \<Rightarrow> False | Some t \<Rightarrow> now - t < CACHE_EXPIRY))"

text \<open>The argument \<open>now\<close> is the value \<^verbatim>\<open>Date.now()\<close> returns in the call.\<close>

definition wordCacheStorage_getCachedWord :: "int \<Rightarrow> string \<Rightarrow> (jsfield option, 'b) io" where
  "wordCacheStorage_getCachedWord now w =
     await (StorageManager_get WORD_CACHE) (\<lambda>stored.
       let cache = or_empty_object stored;
           cachedData = js_index cache w
       in if cache_fresh now cachedData then resolve cachedData else resolve None)"


subsection \<open>currentWordStorage\<close>

definition current_word_object :: "string \<Rightarrow> jsfield \<Rightarrow> int \<Rightarrow> jsval" where
  "current_word_object w data now =
     JObj [''word'' \<mapsto> FStr w, ''data'' \<mapsto> data, ''timestamp'' \<mapsto> FNum now]"

definition currentWordStorage_setCurrentWord :: "int \<Rightarrow> string \<Rightarrow> jsfield \<Rightarrow> (unit, 'b) io" where
  "currentWordStorage_setCurrentWord now w data =
     StorageManager_set CURRENT_WORD (current_word_object w data now)"

definition currentWordStorage_getCurrentWord :: "(jsval option, 'b) io" where
  "currentWordStorage_getCurrentWord = StorageManager_get CURRENT_WORD"

definition currentWordStorage_clearCurrentWord :: "(unit, 'b) io" where
  "currentWordStorage_clearCurrentWord = StorageManager_remove CURRENT_WORD"

section \<open>The background script\<close>

text \<open>\<^verbatim>\<open>fetch(url, config)\<close>: the request is issued, and the promise rejects on a
  network failure.\<close>

definition fetch :: "request \<Rightarrow> (nat \<times> 'b option, 'b) io" where
  "fetch req = (\<lambda>w.
     let w' = w\<lparr>fetch_log := req # fetch_log w\<rparr>
     in case network w (length (fetch_log w)) of
          FetchFailed \<Rightarrow> (Inl NetworkError, w')
        | Response status body \<Rightarrow> (Inr (status, body), w'))"

definition response_ok :: "nat \<Rightarrow> bool" where
  "response_ok status = (200 \<le> status \<and> status \<le> 299)"

text \<open>\<^verbatim>\<open>response.json()\<close>; a body that does not parse is \<open>None\<close>.\<close>

definition response_json :: "'b option \<Rightarrow> ('b, 'b) io" where
  "response_json body = (case body of None \<Rightarrow> reject SyntaxError | Some data \<Rightarrow> resolve data)"

abbreviation API_BASE_URL :: string where "API_BASE_URL \<equiv> ''http://localhost:8000''"

text \<open>\<^verbatim>\<open>if (x)\<close> for a value that may be \<^verbatim>\<open>null\<close>.\<close>

definition present :: "jsval option \<Rightarrow> bool" where
  "present x = (case x of None \<Rightarrow> False | Some v \<Rightarrow> truthy v)"

definition field_present :: "jsfield option \<Rightarrow> bool" where
  "field_present x = (case x of None \<Rightarrow> False | Some d \<Rightarrow> field_truthy d)"

definition getAuthToken :: "(jsval option, 'b) io" where
  "getAuthToken =
     try_catch
       (await (storage_local_get [AUTH_TOKEN]) (\<lambda>result. resolve (or_null (result AUTH_TOKEN))))
       (\<lambda>error. resolve None)"

definition setAuthToken :: "jsval \<Rightarrow> (unit, 'b) io" where
  "setAuthToken tok =
     try_catch (storage_local_set [AUTH_TOKEN \<mapsto> tok]) (\<lambda>error. resolve ())"

definition getUserId :: "(jsval option, 'b) io" where
  "getUserId =
     try_catch
       (await (storage_local_get [USER_ID]) (\<lambda>result. resolve (or_null (result USER_ID))))
       (\<lambda>error. resolve None)"

text \<open>The background script has its own \<^verbatim>\<open>CACHE_EXPIRY\<close>, of the same value.\<close>

definition getCachedWordData :: "int \<Rightarrow> string \<Rightarrow> (jsfield option, 'b) io" where
  "getCachedWordData now w =
     try_catch
       (await (storage_local_get [WORD_CACHE]) (\<lambda>result.
          let cache = or_empty_object (result WORD_CACHE);
              cachedData = js_index cache w
          in if cache_fresh now cachedData then resolve cachedData else resolve None))
       (\<lambda>error. resolve None)"

definition setCachedWordData :: "int \<Rightarrow> string \<Rightarrow> WordData \<Rightarrow> (unit, 'b) io" where
  "setCachedWordData now w data =
     try_catch
       (await (storage_local_get [WORD_CACHE]) (\<lambda>result.
          let cache = or_empty_object (result WORD_CACHE)
          in case js_assign cache w (FWord data (Some now)) of
               Inl e \<Rightarrow> reject e
             | Inr cache' \<Rightarrow> storage_local_set [WORD_CACHE \<mapsto> cache']))
       (\<lambda>error. resolve ())"

text \<open>\<open>t_read\<close> and \<open>t_write\<close> are the two readings of \<^verbatim>\<open>Date.now()\<close>, in
  \<^verbatim>\<open>getCachedWordData\<close> and in \<^verbatim>\<open>setCachedWordData\<close>.\<close>

definition fetchWordData :: "int \<Rightarrow> int \<Rightarrow> string \<Rightarrow> (jsfield option, WordData) io" where
  "fetchWordData t_read t_write w =
     try_catch
       (await (getCachedWordData t_read w) (\<lambda>cachedData.
          if field_present cachedData then resolve cachedData
          else
            await (fetch \<lparr>req_method = ''GET'', req_base = API_BASE_URL,
                           req_endpoint = WordEndpoint w, req_bearer = None,
                           req_body = None\<rparr>) (\<lambda>(status, body).
              if \<not> response_ok status then resolve None
              else
                await (response_json body) (\<lambda>data.
                await (setCachedWordData t_write w data) (\<lambda>_.
                resolve (Some (FWord data None)))))))
       (\<lambda>error. resolve None)"

definition addFlashcardToUser :: "string \<Rightarrow> (bool, 'b) io" where
  "addFlashcardToUser fid =
     try_catch
       (await getAuthToken (\<lambda>authToken.
        await getUserId (\<lambda>uid.
          if \<not> present authToken \<or> \<not> present uid then resolve False
          else
            await (fetch \<lparr>req_method = ''PUT'', req_base = API_BASE_URL,
                           req_endpoint = AddFlashcardEndpoint, req_bearer = authToken,
                           req_body = Some (uid, fid)\<rparr>) (\<lambda>(status, body).
              if \<not> response_ok status then resolve False else resolve True))))
       (\<lambda>error. resolve False)"

definition setCurrentWord :: "int \<Rightarrow> string \<Rightarrow> jsfield \<Rightarrow> (unit, 'b) io" where
  "setCurrentWord now w data =
     try_catch
       (storage_local_set [CURRENT_WORD \<mapsto> current_word_object w data now])
       (\<lambda>error. resolve ())"

text \<open>The \<^verbatim>\<open>onMessage\<close> listener, for the two messages above. \<open>t_slot\<close> is the reading
  of \<^verbatim>\<open>Date.now()\<close> in \<^verbatim>\<open>setCurrentWord\<close>. The answer to \<^verbatim>\<open>ADD_FLASHCARD\<close> is
  \<^verbatim>\<open>{success}\<close>; \<^verbatim>\<open>WORD_DETECTED\<close> is not answered.\<close>

fun onMessage :: "int \<Rightarrow> int \<Rightarrow> int \<Rightarrow> message \<Rightarrow> (bool option, WordData) io" where
  "onMessage t_read t_write t_slot (WORD_DETECTED w url timestamp) =
     await (fetchWordData t_read t_write w) (\<lambda>wordData.
       case wordData of
         None \<Rightarrow> resolve None
       | Some d \<Rightarrow>
           if field_truthy d then await (setCurrentWord t_slot w d) (\<lambda>_. resolve None)
           else resolve None)"
| "onMessage t_read t_write t_slot (ADD_FLASHCARD fid) =
     await (addFlashcardToUser fid) (\<lambda>success. resolve (Some success))"

section \<open>lib/api.ts\<close>

record ApiClient =
  baseUrl :: string
  retryAttempts :: nat
  retryDelay :: nat

definition apiClient :: ApiClient where
  "apiClient = \<lparr>baseUrl = API_BASE_URL, retryAttempts = 3, retryDelay = 1000\<rparr>"

definition ApiClient_getAuthToken :: "(jsval option, 'b) io" where
  "ApiClient_getAuthToken =
     try_catch
       (await (storage_local_get [AUTH_TOKEN]) (\<lambda>result. resolve (or_null (result AUTH_TOKEN))))
       (\<lambda>error. resolve None)"

text \<open>\<^verbatim>\<open>delay(ms)\<close>: the waiting time is recorded.\<close>

definition ApiClient_delay :: "nat \<Rightarrow> (unit, 'b) io" where
  "ApiClient_delay ms = (\<lambda>w. (Inr (), w\<lparr>delays := ms # delays w\<rparr>))"

text \<open>The body of the \<^verbatim>\<open>try\<close> block of one pass of the loop.\<close>

definition request_attempt :: "request \<Rightarrow> ('b, 'b) io" where
  "request_attempt config =
     await (fetch config) (\<lambda>(status, body).
       if \<not> response_ok status then reject (HttpError status)
       else response_json body)"

text \<open>The loop \<^verbatim>\<open>for (let attempt = 1; attempt <= this.retryAttempts; attempt++)\<close>
  and the final \<^verbatim>\<open>throw lastError!\<close>; \<open>lastError\<close> starts unassigned (\<open>None\<close>).\<close>

function request_loop ::
  "ApiClient \<Rightarrow> request \<Rightarrow> nat \<Rightarrow> error option \<Rightarrow> ('b, 'b) io" where
  "request_loop c config attempt lastError w =
     (if attempt \<le> retryAttempts c then
        (case request_attempt config w of
           (Inr x, w') \<Rightarrow> (Inr x, w')
         | (Inl error, w') \<Rightarrow>
             (case (if attempt < retryAttempts c
                    then ApiClient_delay (retryDelay c * attempt) w'
                    else (Inr (), w')) of
                (_, w'') \<Rightarrow> request_loop c config (Suc attempt) (Some error) w''))
      else
        (case lastError of
           Some e \<Rightarrow> (Inl e, w)
         | None \<Rightarrow> (Inl UndefinedThrown, w)))"
  by pat_completeness auto
termination
  by (relation "measure (\<lambda>(c, config, attempt, lastError, w). Suc (retryAttempts c) - attempt)") auto

definition ApiClient_request ::
  "ApiClient \<Rightarrow> endpoint \<Rightarrow> string \<Rightarrow> (jsval option \<times> string) option \<Rightarrow> ('b, 'b) io" where
  "ApiClient_request c ep method body =
     await ApiClient_getAuthToken (\<lambda>authToken.
       request_loop c
         \<lparr>req_method = method, req_base = baseUrl c, req_endpoint = ep,
          req_bearer = (if present authToken then authToken else None),
          req_body = body\<rparr>
         1 None)"

definition ApiClient_get :: "ApiClient \<Rightarrow> endpoint \<Rightarrow> ('b, 'b) io" where
  "ApiClient_get c ep = ApiClient_request c ep ''GET'' None"

definition ApiClient_post ::
  "ApiClient \<Rightarrow> endpoint \<Rightarrow> (jsval option \<times> string) option \<Rightarrow> ('b, 'b) io" where
  "ApiClient_post c ep body = ApiClient_request c ep ''POST'' body"

definition wordApi_getWord :: "string \<Rightarrow> ('b, 'b) io" where
  "wordApi_getWord w = ApiClient_get apiClient (WordEndpoint w)"

definition wordApi_addFlashcard :: "string \<Rightarrow> string \<Rightarrow> ('b, 'b) io" where
  "wordApi_addFlashcard uid fid =
     ApiClient_post apiClient AddFlashcardEndpoint (Some (Some (JStr uid), fid))"

section \<open>hooks/useWordData.ts\<close>

text \<open>Strings are sequences of 8-bit characters; \<^verbatim>\<open>toLowerCase\<close> and \<^verbatim>\<open>trim\<close> are
  modelled on ASCII: the letters A to Z, and the white space characters tab, line
  feed, vertical tab, form feed, carriage return and space.\<close>

definition lower_char :: "char \<Rightarrow> char" where
  "lower_char c =
     (let n = (of_char c :: nat) in if 65 \<le> n \<and> n \<le> 90 then char_of (n + 32) else c)"

definition toLowerCase :: "string \<Rightarrow> string" where
  "toLowerCase s = map lower_char s"

definition white_space :: "char \<Rightarrow> bool" where
  "white_space c = (let n = (of_char c :: nat) in (9 \<le> n \<and> n \<le> 13) \<or> n = 32)"

definition trim :: "string \<Rightarrow> string" where
  "trim s = rev (dropWhile white_space (rev (dropWhile white_space s)))"

text \<open>\<^verbatim>\<open>browser.runtime.sendMessage\<close>: the message is recorded; the promise may reject
  with an error carrying a message text.\<close>

definition runtime_sendMessage :: "message \<Rightarrow> (unit, 'b) io" where
  "runtime_sendMessage msg = (\<lambda>w.
     let w' = w\<lparr>sent := msg # sent w\<rparr>
     in case send_rejects w (length (sent w)) of
          Some text \<Rightarrow> (Inl (RuntimeError text), w')
        | None \<Rightarrow> (Inr (), w'))"

text \<open>\<^verbatim>\<open>setTimeout(..., ms)\<close>: the timer is recorded, its callback is not run.\<close>

definition setTimeout :: "nat \<Rightarrow> (unit, 'b) io" where
  "setTimeout ms = (\<lambda>w. (Inr (), w\<lparr>timers := ms # timers w\<rparr>))"

definition setError :: "notice option \<Rightarrow> (unit, 'b) io" where
  "setError e = (\<lambda>w. (Inr (), w\<lparr>ui_error := e\<rparr>))"

definition setIsLoading :: "bool \<Rightarrow> (unit, 'b) io" where
  "setIsLoading b = (\<lambda>w. (Inr (), w\<lparr>ui_isLoading := b\<rparr>))"

definition setCurrentWordState :: "jsval option \<Rightarrow> (unit, 'b) io" where
  "setCurrentWordState v = (\<lambda>w. (Inr (), w\<lparr>ui_currentWord := v\<rparr>))"

text \<open>\<^verbatim>\<open>error.message || ...\<close>: whether the caught value carries a non-empty message.\<close>

fun has_message :: "error \<Rightarrow> bool" where
  "has_message (RuntimeError text) = (text \<noteq> [])"
| "has_message UndefinedThrown = False"
| "has_message _ = True"

text \<open>\<^verbatim>\<open>try { ... } finally { ... }\<close>: the second action runs in either case and the
  outcome of the first is kept.\<close>

definition finally_do :: "('a, 'b) io \<Rightarrow> (unit, 'b) io \<Rightarrow> ('a, 'b) io" where
  "finally_do m fin = (\<lambda>w.
     case m w of (r, w') \<Rightarrow> (case fin w' of (Inl e, w'') \<Rightarrow> (Inl e, w'') | (Inr _, w'') \<Rightarrow> (r, w'')))"

text \<open>
  \<^verbatim>\<open>fetchWordData\<close> of the hook. \<open>t_read\<close>, \<open>t_hit\<close>, \<open>t_slot\<close> and \<open>t_msg\<close> are
  the readings of \<^verbatim>\<open>Date.now()\<close> in \<^verbatim>\<open>getCachedWord\<close>, for the popup's
  \<^verbatim>\<open>wordData\<close>, in \<^verbatim>\<open>setCurrentWord\<close> and for the message; \<open>url\<close> is
  \<^verbatim>\<open>window.location?.href || ""\<close>.
\<close>

definition useWordData_fetchWordData ::
  "int \<Rightarrow> int \<Rightarrow> int \<Rightarrow> int \<Rightarrow> string \<Rightarrow> string \<Rightarrow> (unit, 'b) io" where
  "useWordData_fetchWordData t_read t_hit t_slot t_msg url w =
     (if w = [] \<or> trim w = [] then setError (Some InvalidWordNotice)
      else
        finally_do
          (try_catch
             (await (setIsLoading True) (\<lambda>_.
              await (setError None) (\<lambda>_.
              await (wordCacheStorage_getCachedWord t_read (toLowerCase w)) (\<lambda>cachedData.
                case cachedData of
                  Some d \<Rightarrow>
                    if field_truthy d then
                      await (currentWordStorage_setCurrentWord t_slot (toLowerCase w) d) (\<lambda>_.
                      setCurrentWordState (Some (current_word_object (toLowerCase w) d t_hit)))
                    else
                      await (runtime_sendMessage (WORD_DETECTED (toLowerCase w) url t_msg)) (\<lambda>_.
                      setTimeout 1000)
                | None \<Rightarrow>
                    await (runtime_sendMessage (WORD_DETECTED (toLowerCase w) url t_msg)) (\<lambda>_.
                    setTimeout 1000)))))
             (\<lambda>error.
                setError (Some (if has_message error then ErrorNotice error else FetchFailedNotice))))
          (setIsLoading False))"

section \<open>Notions used to state the properties\<close>

text \<open>The entry the cache functions find for a word in a store: \<^verbatim>\<open>cache[word]\<close> for
  \<^verbatim>\<open>cache = store.wordCache || {}\<close>.\<close>

definition cached_entry :: "(string \<rightharpoonup> jsval) \<Rightarrow> string \<Rightarrow> jsfield option" where
  "cached_entry store k = js_index (or_empty_object (store WORD_CACHE)) k"


text \<open>A failed attempt: a network failure or a response outside 200..299.\<close>

definition fetch_fails :: "'b fetch_result \<Rightarrow> bool" where
  "fetch_fails r = (case r of FetchFailed \<Rightarrow> True | Response status body \<Rightarrow> \<not> response_ok status)"

text \<open>The request \<^verbatim>\<open>fetchWordData\<close> of the background script issues for a word, and the
  one \<^verbatim>\<open>addFlashcardToUser\<close> issues.\<close>

definition word_request :: "string \<Rightarrow> request" where
  "word_request k =
     \<lparr>req_method = ''GET'', req_base = API_BASE_URL, req_endpoint = WordEndpoint k,
      req_bearer = None, req_body = None\<rparr>"

definition add_request :: "jsval \<Rightarrow> jsval \<Rightarrow> string \<Rightarrow> request" where
  "add_request tok uid fid =
     \<lparr>req_method = ''PUT'', req_base = API_BASE_URL, req_endpoint = AddFlashcardEndpoint,
      req_bearer = Some tok, req_body = Some (Some uid, fid)\<rparr>"

subsection \<open>Concrete inputs\<close>

definition example_word :: WordData where
  "example_word =
     \<lparr>flashcardId = ''fc-1'',
      word = \<lparr>wordId = ''w-1'', word_text = ''example'', coreMeaning = ''sample'',
              explanation = ''a representative case''\<rparr>,
      meanings = [\<lparr>meaningId = ''m-1'', meaning_pos = noun, translation = ''rei'',
                   pronunciation = ''igzampl'', exampleEng = ''for example'',
                   exampleJpn = ''tatoeba''\<rparr>],
      media = \<lparr>mediaId = ''md-1'', media_meaningId = ''m-1'', mediaUrls = []\<rparr>\<rparr>"

text \<open>A world with the given store, in which every storage call rejects or none does,
  and in which every \<^verbatim>\<open>fetch\<close> has the same outcome.\<close>

definition example_world ::
  "(string \<rightharpoonup> jsval) \<Rightarrow> bool \<Rightarrow> WordData fetch_result \<Rightarrow> WordData world" where
  "example_world store rejecting answer =
     \<lparr>storage_local = store, storage_calls = 0, storage_rejects = (\<lambda>i. rejecting),
      fetch_log = [], network = (\<lambda>i. answer), delays = [], sent = [],
      send_rejects = (\<lambda>i. None), timers = [], ui_currentWord = None,
      ui_isLoading = False, ui_error = None\<rparr>"

definition offline_world :: "WordData world" where
  "offline_world = example_world Map.empty False FetchFailed"

definition partial_credential_world :: "WordData world" where
  "partial_credential_world =
     example_world [AUTH_TOKEN \<mapsto> JStr ''t0k'', USER_ID \<mapsto> JStr ''u-1'']
       False (Response 200 None)"

definition signed_in_world :: "WordData fetch_result \<Rightarrow> WordData world" where
  "signed_in_world answer =
     example_world
       [AUTH_TOKEN \<mapsto> JStr ''t0k'', USER_ID \<mapsto> JStr ''u-1'', USER_EMAIL \<mapsto> JStr ''a@b.c'']
       False answer"

definition cached_world :: "WordData world" where
  "cached_world =
     example_world [WORD_CACHE \<mapsto> JObj [''example'' \<mapsto> FWord example_word (Some 0)]]
       False FetchFailed"

section \<open>Evaluation lemmas\<close>

lemmas io_defs = resolve_def reject_def await_def try_catch_def storage_call_def
  storage_local_get_def storage_local_set_def storage_local_remove_def storage_local_clear_def

lemma or_empty_object_or_null [simp]: "or_empty_object (or_null x) = or_empty_object x"
  by (simp add: or_empty_object_def or_null_def split: option.splits)

lemma or_empty_object_simps [simp]:
  "or_empty_object None = JObj Map.empty"
  "or_empty_object (Some (JObj m)) = JObj m"
  by (simp_all add: or_empty_object_def)

lemma cache_fresh_None [simp]: "cache_fresh now None = False"
  by (simp add: cache_fresh_def)

lemma cache_fresh_entry [simp]:
  "cache_fresh t1 (Some (FWord r (Some t0))) = (t1 - t0 < CACHE_EXPIRY)"
  by (simp add: cache_fresh_def)

lemma cache_fresh_present: "cache_fresh now x \<Longrightarrow> field_present x"
  by (auto simp: cache_fresh_def field_present_def split: option.splits)

lemma field_present_None [simp]: "\<not> field_present None"
  by (simp add: field_present_def)

lemma present_or_null [simp]: "present (or_null x) = present x"
  by (simp add: present_def or_null_def split: option.splits)

lemma present_None [simp]: "\<not> present None"
  by (simp add: present_def)


lemma js_member_own: "key \<notin> set Object_prototype \<Longrightarrow> js_member obj key = obj key"
  by (simp add: js_member_def split: option.splits)

lemma js_member_restrict: "js_member (obj |` {key}) key = js_member obj key"
  by (simp add: js_member_def)

lemma js_member_fixed_keys [simp]:
  "js_member obj WORD_CACHE = obj WORD_CACHE"
  "js_member obj CURRENT_WORD = obj CURRENT_WORD"
  by (simp_all add: js_member_own Object_prototype_def)

subsection \<open>StorageManager\<close>

lemma StorageManager_get_eval:
  "StorageManager_get key w =
     (if storage_rejects w (storage_calls w) then Inr None
      else Inr (or_null (js_member (storage_local w) key)),
      w\<lparr>storage_calls := Suc (storage_calls w)\<rparr>)"
  by (simp add: StorageManager_get_def io_defs Let_def js_member_restrict)

lemma StorageManager_getMultiple_eval:
  "StorageManager_getMultiple keys w =
     (if storage_rejects w (storage_calls w) then Inr Map.empty
      else Inr (storage_local w |` set keys),
      w\<lparr>storage_calls := Suc (storage_calls w)\<rparr>)"
  by (simp add: StorageManager_getMultiple_def io_defs Let_def)

lemma StorageManager_setMultiple_eval:
  "StorageManager_setMultiple data w =
     (Inr (),
      if storage_rejects w (storage_calls w) then w\<lparr>storage_calls := Suc (storage_calls w)\<rparr>
      else w\<lparr>storage_calls := Suc (storage_calls w), storage_local := storage_local w ++ data\<rparr>)"
  by (simp add: StorageManager_setMultiple_def io_defs Let_def)

lemma StorageManager_set_eval:
  "StorageManager_set key v w =
     (Inr (),
      if storage_rejects w (storage_calls w) then w\<lparr>storage_calls := Suc (storage_calls w)\<rparr>
      else w\<lparr>storage_calls := Suc (storage_calls w),
             storage_local := (storage_local w)(key \<mapsto> v)\<rparr>)"
  by (simp add: StorageManager_set_def io_defs Let_def)

lemma StorageManager_removeMultiple_eval:
  "StorageManager_removeMultiple keys w =
     (Inr (),
      if storage_rejects w (storage_calls w) then w\<lparr>storage_calls := Suc (storage_calls w)\<rparr>
      else w\<lparr>storage_calls := Suc (storage_calls w),
             storage_local := storage_local w |` (- set keys)\<rparr>)"
  by (simp add: StorageManager_removeMultiple_def io_defs Let_def)

lemma StorageManager_remove_eval:
  "StorageManager_remove key w =
     (Inr (),
      if storage_rejects w (storage_calls w) then w\<lparr>storage_calls := Suc (storage_calls w)\<rparr>
      else w\<lparr>storage_calls := Suc (storage_calls w),
             storage_local := storage_local w |` (- {key})\<rparr>)"
  by (simp add: StorageManager_remove_def io_defs Let_def)

lemma StorageManager_clear_eval:
  "StorageManager_clear w =
     (Inr (),
      if storage_rejects w (storage_calls w) then w\<lparr>storage_calls := Suc (storage_calls w)\<rparr>
      else w\<lparr>storage_calls := Suc (storage_calls w), storage_local := Map.empty\<rparr>)"
  by (simp add: StorageManager_clear_def io_defs Let_def)

subsection \<open>The word cache\<close>

lemma getCachedWord_eval:
  "wordCacheStorage_getCachedWord now k w =
     (if \<not> storage_rejects w (storage_calls w)
          \<and> cache_fresh now (cached_entry (storage_local w) k)
      then Inr (cached_entry (storage_local w) k) else Inr None,
      w\<lparr>storage_calls := Suc (storage_calls w)\<rparr>)"
  by (simp add: wordCacheStorage_getCachedWord_def await_def resolve_def StorageManager_get_eval
      cached_entry_def Let_def)

lemma getCachedWordData_eval:
  "getCachedWordData now k w =
     (if \<not> storage_rejects w (storage_calls w)
          \<and> cache_fresh now (cached_entry (storage_local w) k)
      then Inr (cached_entry (storage_local w) k) else Inr None,
      w\<lparr>storage_calls := Suc (storage_calls w)\<rparr>)"
  by (simp add: getCachedWordData_def io_defs cached_entry_def Let_def)






subsection \<open>The credential\<close>

lemma setAuthData_eval:
  "authStorage_setAuthData c w =
     (Inr (),
      if storage_rejects w (storage_calls w) then w\<lparr>storage_calls := Suc (storage_calls w)\<rparr>
      else w\<lparr>storage_calls := Suc (storage_calls w),
             storage_local := (storage_local w)
               (AUTH_TOKEN \<mapsto> token c, USER_ID \<mapsto> userId c, USER_EMAIL \<mapsto> email c)\<rparr>)"
  by (simp add: authStorage_setAuthData_def StorageManager_setMultiple_eval)

lemma getAuthData_eval:
  "authStorage_getAuthData w =
     (if \<not> storage_rejects w (storage_calls w) \<and> present (storage_local w AUTH_TOKEN)
          \<and> present (storage_local w USER_ID) \<and> present (storage_local w USER_EMAIL)
      then Inr (Some \<lparr>token = the (storage_local w AUTH_TOKEN),
                       userId = the (storage_local w USER_ID),
                       email = the (storage_local w USER_EMAIL)\<rparr>)
      else Inr None,
      w\<lparr>storage_calls := Suc (storage_calls w)\<rparr>)"
  by (auto simp add: authStorage_getAuthData_def await_def resolve_def
      StorageManager_getMultiple_eval present_def split: option.splits)

lemma clearAuthData_eval:
  "authStorage_clearAuthData w =
     (Inr (),
      if storage_rejects w (storage_calls w) then w\<lparr>storage_calls := Suc (storage_calls w)\<rparr>
      else w\<lparr>storage_calls := Suc (storage_calls w),
             storage_local := storage_local w |` (- {AUTH_TOKEN, USER_ID, USER_EMAIL})\<rparr>)"
  by (simp add: authStorage_clearAuthData_def StorageManager_removeMultiple_eval)

lemma getAuthToken_eval:
  "getAuthToken w =
     (if storage_rejects w (storage_calls w) then Inr None
      else Inr (or_null (storage_local w AUTH_TOKEN)),
      w\<lparr>storage_calls := Suc (storage_calls w)\<rparr>)"
  by (simp add: getAuthToken_def io_defs Let_def)

lemma ApiClient_getAuthToken_eval:
  "ApiClient_getAuthToken w =
     (if storage_rejects w (storage_calls w) then Inr None
      else Inr (or_null (storage_local w AUTH_TOKEN)),
      w\<lparr>storage_calls := Suc (storage_calls w)\<rparr>)"
  by (simp add: ApiClient_getAuthToken_def io_defs Let_def)

lemma getUserId_eval:
  "getUserId w =
     (if storage_rejects w (storage_calls w) then Inr None
      else Inr (or_null (storage_local w USER_ID)),
      w\<lparr>storage_calls := Suc (storage_calls w)\<rparr>)"
  by (simp add: getUserId_def io_defs Let_def)

subsection \<open>Requests\<close>

lemma fetchWordData_failing:
  assumes "fetch_fails (network w (length (fetch_log w)))"
  shows "fetchWordData t_read t_write k w =
     (if \<not> storage_rejects w (storage_calls w)
          \<and> cache_fresh t_read (cached_entry (storage_local w) k)
      then (Inr (cached_entry (storage_local w) k), w\<lparr>storage_calls := Suc (storage_calls w)\<rparr>)
      else (Inr None, w\<lparr>storage_calls := Suc (storage_calls w),
                          fetch_log := word_request k # fetch_log w\<rparr>))"
  using assms
  by (auto simp add: fetchWordData_def try_catch_def await_def resolve_def getCachedWordData_eval
      fetch_def fetch_fails_def Let_def word_request_def cache_fresh_present
      split: fetch_result.splits)

lemma request_attempt_failing:
  assumes "fetch_fails (network w (length (fetch_log w)))"
  shows "\<exists>e. request_attempt config w = (Inl e, w\<lparr>fetch_log := config # fetch_log w\<rparr>)"
  using assms
  by (auto simp add: request_attempt_def await_def reject_def fetch_def fetch_fails_def Let_def
      split: fetch_result.splits)

lemma request_loop_failing:
  assumes "\<forall>i. fetch_fails (network w i)"
  shows "isl (fst (request_loop c config attempt lastError w))
     \<and> length (fetch_log (snd (request_loop c config attempt lastError w)))
         = length (fetch_log w) + (Suc (retryAttempts c) - attempt)
     \<and> storage_local (snd (request_loop c config attempt lastError w)) = storage_local w"
  using assms
proof (induction c config attempt lastError w rule: request_loop.induct)
  case (1 c config attempt lastError w)
  show ?case
  proof (cases "attempt \<le> retryAttempts c")
    case False
    then show ?thesis by (simp split: option.splits)
  next
    case True
    obtain e where e: "request_attempt config w = (Inl e, w\<lparr>fetch_log := config # fetch_log w\<rparr>)"
      using request_attempt_failing[of w config] "1.prems" by blast
    let ?w' = "w\<lparr>fetch_log := config # fetch_log w\<rparr>"
    let ?d = "if attempt < retryAttempts c then ApiClient_delay (retryDelay c * attempt) ?w'
              else (Inr (), ?w')"
    have net: "network (snd ?d) = network w" "fetch_log (snd ?d) = config # fetch_log w"
      "storage_local (snd ?d) = storage_local w"
      by (simp_all add: ApiClient_delay_def)
    have ih: "isl (fst (request_loop c config (Suc attempt) (Some e) (snd ?d)))
      \<and> length (fetch_log (snd (request_loop c config (Suc attempt) (Some e) (snd ?d))))
          = length (fetch_log (snd ?d)) + (Suc (retryAttempts c) - Suc attempt)
      \<and> storage_local (snd (request_loop c config (Suc attempt) (Some e) (snd ?d)))
          = storage_local (snd ?d)"
      using "1.IH"[OF True e[symmetric] refl prod.collapse] "1.prems" net(1)
      by simp
    have step: "request_loop c config attempt lastError w
        = request_loop c config (Suc attempt) (Some e) (snd ?d)"
      using True e by (subst request_loop.simps) (simp add: case_prod_beta)
    show ?thesis using True ih net by (simp only: step) simp
  qed
qed

lemma getWord_failing:
  assumes "\<forall>i. fetch_fails (network w i)"
  shows "isl (fst (wordApi_getWord k w))
     \<and> length (fetch_log (snd (wordApi_getWord k w))) = length (fetch_log w) + 3
     \<and> storage_local (snd (wordApi_getWord k w)) = storage_local w"
proof -
  let ?w1 = "w\<lparr>storage_calls := Suc (storage_calls w)\<rparr>"
  have "\<forall>i. fetch_fails (network ?w1 i)" using assms by simp
  from request_loop_failing[OF this, of apiClient _ 1 None]
  show ?thesis
    by (simp add: wordApi_getWord_def ApiClient_get_def ApiClient_request_def await_def
        ApiClient_getAuthToken_eval apiClient_def)
qed

subsection \<open>Strings\<close>

lemma lower_char_idem: "lower_char (lower_char c) = lower_char c"
  by (simp add: lower_char_def Let_def)

lemma white_space_lower_char: "white_space (lower_char c) = white_space c"
  by (simp add: lower_char_def white_space_def Let_def)

lemma toLowerCase_idem: "toLowerCase (toLowerCase s) = toLowerCase s"
  by (simp add: toLowerCase_def lower_char_idem)

lemma dropWhile_white_space_lower:
  "dropWhile white_space (map lower_char s) = map lower_char (dropWhile white_space s)"
  by (induction s) (simp_all add: white_space_lower_char)

lemma trim_toLowerCase: "trim (toLowerCase s) = toLowerCase (trim s)"
  by (simp add: trim_def toLowerCase_def dropWhile_white_space_lower rev_map)

lemma toLowerCase_Nil: "(toLowerCase s = []) = (s = [])"
  by (simp add: toLowerCase_def)

lemma strip_end_keeps_head:
  "\<not> P x \<Longrightarrow> rev (dropWhile P (rev (x # xs))) = x # rev (dropWhile P (rev xs))"
  by (simp add: dropWhile_append)

lemma dropWhile_strip_end:
  assumes "t = [] \<or> \<not> P (hd t)"
  shows "dropWhile P (rev (dropWhile P (rev t))) = rev (dropWhile P (rev t))"
proof (cases t)
  case Nil
  then show ?thesis by simp
next
  case (Cons x xs)
  then have nx: "\<not> P x" using assms by simp
  have e: "rev (dropWhile P (rev (x # xs))) = x # rev (dropWhile P (rev xs))"
    using nx by (rule strip_end_keeps_head)
  show ?thesis unfolding Cons e using nx by simp
qed

lemma trim_idem: "trim (trim s) = trim s"
proof -
  have "dropWhile white_space s = [] \<or> \<not> white_space (hd (dropWhile white_space s))"
    using hd_dropWhile[of white_space s] by blast
  then show ?thesis
    by (simp add: trim_def dropWhile_strip_end)
qed

section \<open>The word cache\<close>




text \<open>
  C8 (lazy expiry leaves the cache unmodified). For every word, time and world,
  \<^verbatim>\<open>getCachedWord\<close> and \<^verbatim>\<open>getCachedWordData\<close> leave the whole store as it was; in
  particular an entry that has expired is answered with \<^verbatim>\<open>null\<close> and is still in
  the cache map after the read.
\<close>

theorem lazy_expiry_no_write:
  "storage_local (snd (wordCacheStorage_getCachedWord now k w)) = storage_local w
   \<and> storage_local (snd (getCachedWordData now k w)) = storage_local w
   \<and> (cached_entry (storage_local w) k = Some (FWord d (Some t0)) \<and> t0 + CACHE_EXPIRY \<le> now \<longrightarrow>
        fst (wordCacheStorage_getCachedWord now k w) = Inr None
        \<and> fst (getCachedWordData now k w) = Inr None
        \<and> cached_entry (storage_local (snd (wordCacheStorage_getCachedWord now k w))) k
            = Some (FWord d (Some t0))
        \<and> cached_entry (storage_local (snd (getCachedWordData now k w))) k
            = Some (FWord d (Some t0)))"
  by (simp add: getCachedWord_eval getCachedWordData_eval)

theorem lazy_expiry_no_write_witness:
  "cached_entry (storage_local cached_world) ''example'' = Some (FWord example_word (Some 0))
   \<and> fst (wordCacheStorage_getCachedWord 3600000 ''example'' cached_world) = Inr None
   \<and> fst (getCachedWordData 3600000 ''example'' cached_world) = Inr None
   \<and> storage_local (snd (wordCacheStorage_getCachedWord 3600000 ''example'' cached_world))
       = storage_local cached_world
   \<and> cached_entry (storage_local (snd (getCachedWordData 3600000 ''example'' cached_world)))
       ''example'' = Some (FWord example_word (Some 0))"
proof -
  have e: "cached_entry (storage_local cached_world) ''example''
      = Some (FWord example_word (Some 0))"
    by (simp add: cached_world_def example_world_def cached_entry_def)
  have t: "(0::int) + CACHE_EXPIRY \<le> 3600000"
    by (simp add: CACHE_EXPIRY_def)
  show ?thesis
    using lazy_expiry_no_write[of 3600000 "''example''" cached_world example_word 0] e t
    by simp
qed

text \<open>
  C4 (key normalisation), as the code has it. \<^verbatim>\<open>getCachedWord\<close> looks the word up as
  it is given; the lower-casing is done by its caller, \<^verbatim>\<open>fetchWordData\<close> of the
  word-data hook, which uses \<^verbatim>\<open>word.toLowerCase()\<close> as the key and trims only to
  reject blank input. Lower-casing is idempotent, and so is trimming followed by
  lower-casing; the hook does for a word exactly what it does for the lower-cased
  word, so that "Example" and "example" reach the same cache entry through it.
\<close>

theorem hook_lookup_key:
  "toLowerCase (toLowerCase s) = toLowerCase s
   \<and> toLowerCase (trim (toLowerCase (trim s))) = toLowerCase (trim s)
   \<and> useWordData_fetchWordData t_read t_hit t_slot t_msg url (toLowerCase s) w
       = useWordData_fetchWordData t_read t_hit t_slot t_msg url s w"
  by (simp add: useWordData_fetchWordData_def toLowerCase_idem trim_idem trim_toLowerCase
      toLowerCase_Nil cong: option.case_cong if_cong)

theorem hook_lookup_key_witness:
  "toLowerCase ''Example'' = ''example''
   \<and> useWordData_fetchWordData 1 2 3 4 [] ''example'' cached_world
       = useWordData_fetchWordData 1 2 3 4 [] ''Example'' cached_world"
proof -
  have l: "toLowerCase ''Example'' = ''example''"
    by code_simp
  show ?thesis
    using hook_lookup_key[of "''Example''" 1 2 3 4 "[]" cached_world] l by simp
qed

text \<open>The claim as stated fails on \<^verbatim>\<open>getCachedWord\<close> itself: with a record stored
  under "example", the lookup of "example" finds it and the lookup of "Example" does
  not.\<close>

theorem cache_key_case_counterexample:
  "fst (wordCacheStorage_getCachedWord 1 ''example'' cached_world)
     = Inr (Some (FWord example_word (Some 0)))
   \<and> fst (wordCacheStorage_getCachedWord 1 ''Example'' cached_world) = Inr None"
  by (simp add: getCachedWord_eval cached_world_def example_world_def cached_entry_def
      CACHE_EXPIRY_def)

section \<open>The storage wrapper\<close>

text \<open>
  C7 (storage wrapper total with safe defaults). No operation of \<^verbatim>\<open>StorageManager\<close>
  rejects, whatever the key, the value and the world; and when the storage call
  rejects, \<^verbatim>\<open>get\<close> resolves to \<^verbatim>\<open>null\<close>, \<^verbatim>\<open>getMultiple\<close> to the empty object, and
  \<^verbatim>\<open>set\<close>, \<^verbatim>\<open>setMultiple\<close>, \<^verbatim>\<open>remove\<close>, \<^verbatim>\<open>removeMultiple\<close> and \<^verbatim>\<open>clear\<close> resolve
  with the store unchanged.
\<close>

theorem storage_manager_safe_defaults:
  "(\<forall>e. fst (StorageManager_get key w) \<noteq> Inl e)
   \<and> (\<forall>e. fst (StorageManager_getMultiple keys w) \<noteq> Inl e)
   \<and> (\<forall>e. fst (StorageManager_set key v w) \<noteq> Inl e)
   \<and> (\<forall>e. fst (StorageManager_setMultiple data w) \<noteq> Inl e)
   \<and> (\<forall>e. fst (StorageManager_remove key w) \<noteq> Inl e)
   \<and> (\<forall>e. fst (StorageManager_removeMultiple keys w) \<noteq> Inl e)
   \<and> (\<forall>e. fst (StorageManager_clear w) \<noteq> Inl e)
   \<and> (storage_rejects w (storage_calls w) \<longrightarrow>
        fst (StorageManager_get key w) = Inr None
        \<and> fst (StorageManager_getMultiple keys w) = Inr Map.empty
        \<and> fst (StorageManager_set key v w) = Inr ()
        \<and> storage_local (snd (StorageManager_set key v w)) = storage_local w
        \<and> fst (StorageManager_setMultiple data w) = Inr ()
        \<and> storage_local (snd (StorageManager_setMultiple data w)) = storage_local w
        \<and> fst (StorageManager_remove key w) = Inr ()
        \<and> storage_local (snd (StorageManager_remove key w)) = storage_local w
        \<and> fst (StorageManager_removeMultiple keys w) = Inr ()
        \<and> storage_local (snd (StorageManager_removeMultiple keys w)) = storage_local w
        \<and> fst (StorageManager_clear w) = Inr ()
        \<and> storage_local (snd (StorageManager_clear w)) = storage_local w)"
  by (simp add: StorageManager_get_eval StorageManager_getMultiple_eval StorageManager_set_eval
      StorageManager_setMultiple_eval StorageManager_remove_eval StorageManager_removeMultiple_eval
      StorageManager_clear_eval)

theorem storage_manager_safe_defaults_witness:
  "storage_rejects (example_world [''k'' \<mapsto> JStr ''v''] True FetchFailed)
       (storage_calls (example_world [''k'' \<mapsto> JStr ''v''] True FetchFailed))
   \<and> fst (StorageManager_get ''k'' (example_world [''k'' \<mapsto> JStr ''v''] True FetchFailed))
       = Inr None
   \<and> fst (StorageManager_getMultiple [''k'']
            (example_world [''k'' \<mapsto> JStr ''v''] True FetchFailed)) = Inr Map.empty
   \<and> storage_local (snd (StorageManager_set ''k'' (JNum 1)
            (example_world [''k'' \<mapsto> JStr ''v''] True FetchFailed))) ''k'' = Some (JStr ''v'')
   \<and> storage_local (snd (StorageManager_remove ''k''
            (example_world [''k'' \<mapsto> JStr ''v''] True FetchFailed))) ''k'' = Some (JStr ''v'')
   \<and> storage_local (snd (StorageManager_clear
            (example_world [''k'' \<mapsto> JStr ''v''] True FetchFailed))) ''k'' = Some (JStr ''v'')"
proof -
  have r: "storage_rejects (example_world [''k'' \<mapsto> JStr ''v''] True FetchFailed)
       (storage_calls (example_world [''k'' \<mapsto> JStr ''v''] True FetchFailed))"
    "storage_local (example_world [''k'' \<mapsto> JStr ''v''] True FetchFailed) ''k''
       = Some (JStr ''v'')"
    by (simp_all add: example_world_def)
  show ?thesis
    using storage_manager_safe_defaults
      [of "''k''" "example_world [''k'' \<mapsto> JStr ''v''] True FetchFailed" "[''k'']" "JNum 1"
          Map.empty] r
    by simp
qed




section \<open>The credential\<close>

text \<open>
  C10 (empty-string credential fields count as absent). Let \<open>c\<close> be an \<^verbatim>\<open>AuthData\<close> of
  three strings and let the two storage calls succeed. After \<^verbatim>\<open>setAuthData(c)\<close> the
  three keys are in the store; \<^verbatim>\<open>getAuthData()\<close> returns \<^verbatim>\<open>null\<close> when one of the
  strings is empty, and it returns \<open>c\<close> exactly when all three are non-empty.
\<close>

theorem empty_string_credential_absent:
  assumes "\<not> storage_rejects w (storage_calls w)"
    and "\<not> storage_rejects w (Suc (storage_calls w))"
    and "c = \<lparr>token = JStr t, userId = JStr u, email = JStr e\<rparr>"
  shows "{AUTH_TOKEN, USER_ID, USER_EMAIL}
            \<subseteq> dom (storage_local (snd (authStorage_setAuthData c w)))
     \<and> (t = [] \<or> u = [] \<or> e = [] \<longrightarrow>
          fst (authStorage_getAuthData (snd (authStorage_setAuthData c w))) = Inr None)
     \<and> (fst (authStorage_getAuthData (snd (authStorage_setAuthData c w))) = Inr (Some c)
          \<longleftrightarrow> t \<noteq> [] \<and> u \<noteq> [] \<and> e \<noteq> [])"
  using assms by (auto simp add: setAuthData_eval getAuthData_eval present_def)

theorem empty_string_credential_absent_witness:
  "storage_local (snd (authStorage_setAuthData
       \<lparr>token = JStr ''t0k'', userId = JStr ''u-1'', email = JStr []\<rparr> offline_world)) USER_EMAIL
     = Some (JStr [])
   \<and> fst (authStorage_getAuthData (snd (authStorage_setAuthData
       \<lparr>token = JStr ''t0k'', userId = JStr ''u-1'', email = JStr []\<rparr> offline_world)))
     = Inr None"
proof -
  have h: "\<not> storage_rejects offline_world (storage_calls offline_world)"
    "\<not> storage_rejects offline_world (Suc (storage_calls offline_world))"
    by (simp_all add: offline_world_def example_world_def)
  show ?thesis
    using empty_string_credential_absent[OF h refl, of "''t0k''" "''u-1''" "[]"] h
    by (simp add: setAuthData_eval)
qed

text \<open>
  C5 (credential all-or-nothing), as the code has it. When the storage calls succeed,
  \<^verbatim>\<open>getAuthData()\<close> after \<^verbatim>\<open>clearAuthData()\<close> returns \<^verbatim>\<open>null\<close>, and
  \<^verbatim>\<open>getAuthData()\<close> after \<^verbatim>\<open>setAuthData(c)\<close> returns \<open>c\<close> for every \<open>c\<close> of three
  non-empty strings. In every world, \<^verbatim>\<open>getAuthData()\<close> returns \<^verbatim>\<open>null\<close> when one of
  the three keys is missing, and whatever it returns otherwise carries the three
  stored values, all truthy.
\<close>

theorem credential_all_or_nothing:
  "(\<not> storage_rejects w (storage_calls w) \<and> \<not> storage_rejects w (Suc (storage_calls w)) \<longrightarrow>
      fst (authStorage_getAuthData (snd (authStorage_clearAuthData w))) = Inr None)
   \<and> (\<not> storage_rejects w (storage_calls w) \<and> \<not> storage_rejects w (Suc (storage_calls w))
        \<and> t \<noteq> [] \<and> u \<noteq> [] \<and> e \<noteq> [] \<longrightarrow>
      fst (authStorage_getAuthData
             (snd (authStorage_setAuthData \<lparr>token = JStr t, userId = JStr u, email = JStr e\<rparr> w)))
        = Inr (Some \<lparr>token = JStr t, userId = JStr u, email = JStr e\<rparr>))
   \<and> (storage_local w AUTH_TOKEN = None \<or> storage_local w USER_ID = None
        \<or> storage_local w USER_EMAIL = None \<longrightarrow>
      fst (authStorage_getAuthData w) = Inr None)
   \<and> (\<forall>a. fst (authStorage_getAuthData w) = Inr (Some a) \<longrightarrow>
        storage_local w AUTH_TOKEN = Some (token a) \<and> truthy (token a)
        \<and> storage_local w USER_ID = Some (userId a) \<and> truthy (userId a)
        \<and> storage_local w USER_EMAIL = Some (email a) \<and> truthy (email a))"
  by (auto simp add: setAuthData_eval getAuthData_eval clearAuthData_eval present_def
      split: option.splits if_splits)

theorem credential_all_or_nothing_witness:
  "fst (authStorage_getAuthData (snd (authStorage_clearAuthData (signed_in_world FetchFailed))))
     = Inr None
   \<and> fst (authStorage_getAuthData (snd (authStorage_setAuthData
            \<lparr>token = JStr ''new'', userId = JStr ''u-2'', email = JStr ''x@y.z''\<rparr>
            (signed_in_world FetchFailed))))
     = Inr (Some \<lparr>token = JStr ''new'', userId = JStr ''u-2'', email = JStr ''x@y.z''\<rparr>)
   \<and> fst (authStorage_getAuthData (signed_in_world FetchFailed))
     = Inr (Some \<lparr>token = JStr ''t0k'', userId = JStr ''u-1'', email = JStr ''a@b.c''\<rparr>)"
proof -
  have h: "\<not> storage_rejects (signed_in_world FetchFailed)
              (storage_calls (signed_in_world FetchFailed))"
    "\<not> storage_rejects (signed_in_world FetchFailed)
              (Suc (storage_calls (signed_in_world FetchFailed)))"
    by (simp_all add: signed_in_world_def example_world_def)
  have g: "fst (authStorage_getAuthData (signed_in_world FetchFailed))
     = Inr (Some \<lparr>token = JStr ''t0k'', userId = JStr ''u-1'', email = JStr ''a@b.c''\<rparr>)"
    by (simp add: getAuthData_eval signed_in_world_def example_world_def present_def)
  show ?thesis
    using credential_all_or_nothing
      [of "signed_in_world FetchFailed" "''new''" "''u-2''" "''x@y.z''"] h g
    by simp
qed

text \<open>The claim as stated fails for a credential with an empty field: after
  \<^verbatim>\<open>setAuthData(c)\<close> has completed, \<^verbatim>\<open>getAuthData()\<close> returns \<^verbatim>\<open>null\<close>, not \<open>c\<close>.\<close>

theorem credential_roundtrip_counterexample:
  "fst (authStorage_getAuthData (snd (authStorage_setAuthData
       \<lparr>token = JStr [], userId = JStr ''u-1'', email = JStr ''a@b.c''\<rparr> offline_world)))
     = Inr None
   \<and> fst (authStorage_getAuthData (snd (authStorage_setAuthData
       \<lparr>token = JStr [], userId = JStr ''u-1'', email = JStr ''a@b.c''\<rparr> offline_world)))
     \<noteq> Inr (Some \<lparr>token = JStr [], userId = JStr ''u-1'', email = JStr ''a@b.c''\<rparr>)"
  by (simp add: setAuthData_eval getAuthData_eval offline_world_def example_world_def present_def)

section \<open>Adding a flashcard\<close>

text \<open>
  C3 (mutation gated on the credential), as the code has it. The gate of
  \<^verbatim>\<open>addFlashcardToUser\<close> is on the two values it reads itself, \<^verbatim>\<open>authToken\<close> and
  \<^verbatim>\<open>userId\<close>: when the read of either returns \<^verbatim>\<open>null\<close>, no request is issued and
  the function returns \<^verbatim>\<open>false\<close>, for every flashcard id.
\<close>

theorem mutation_gated_on_token_and_user:
  assumes "fst (getAuthToken w) = Inr None \<or> fst (getUserId (snd (getAuthToken w))) = Inr None"
  shows "fetch_log (snd (addFlashcardToUser fid w)) = fetch_log w
     \<and> fst (addFlashcardToUser fid w) = Inr False"
  using assms
  by (auto simp add: addFlashcardToUser_def await_def try_catch_def resolve_def
      getAuthToken_eval getUserId_eval present_def split: if_splits)

theorem mutation_gated_on_token_and_user_witness:
  "fst (getAuthToken offline_world) = Inr None
   \<and> fetch_log (snd (addFlashcardToUser ''fc-1'' offline_world)) = []
   \<and> fst (addFlashcardToUser ''fc-1'' offline_world) = Inr False"
proof -
  have h: "fst (getAuthToken offline_world) = Inr None"
    by (simp add: getAuthToken_eval offline_world_def example_world_def or_null_def)
  have l: "fetch_log offline_world = []"
    by (simp add: offline_world_def example_world_def)
  show ?thesis
    using mutation_gated_on_token_and_user[OF disjI1, OF h, of "''fc-1''"] h l by simp
qed

text \<open>The claim as stated fails where the e-mail address is missing from the store:
  \<^verbatim>\<open>getAuthData()\<close> returns \<^verbatim>\<open>null\<close>, and \<^verbatim>\<open>addFlashcardToUser\<close> issues its request
  and succeeds.\<close>

theorem mutation_without_credential_counterexample:
  "fst (authStorage_getAuthData partial_credential_world) = Inr None
   \<and> fetch_log (snd (addFlashcardToUser ''fc-1'' partial_credential_world))
       = [add_request (JStr ''t0k'') (JStr ''u-1'') ''fc-1'']
   \<and> fetch_log partial_credential_world = []
   \<and> fst (addFlashcardToUser ''fc-1'' partial_credential_world) = Inr True"
  by (simp add: getAuthData_eval addFlashcardToUser_def await_def try_catch_def resolve_def
      getAuthToken_eval getUserId_eval fetch_def present_def or_null_def response_ok_def
      add_request_def partial_credential_world_def example_world_def Let_def)



section \<open>Resolving a detected word\<close>

text \<open>
  C2 (attempts of a failing resolution), as the code has it. Let every \<^verbatim>\<open>fetch\<close>
  fail. The \<^verbatim>\<open>WORD_DETECTED\<close> handler of the background script, for a word with no
  fresh cache entry, issues exactly one request and no retry, gets no word data,
  and leaves the store, hence the stored \<^verbatim>\<open>currentWord\<close>, as it was; with a fresh
  cache entry it issues no request at all. The bound of three attempts is that of
  \<^verbatim>\<open>ApiClient.request\<close>, which the handler does not use: \<^verbatim>\<open>wordApi.getWord\<close> issues
  exactly three requests, then rejects, and leaves the store as it was.
\<close>

theorem failed_resolution_attempts:
  assumes "\<forall>i. fetch_fails (network w i)"
  shows "(storage_rejects w (storage_calls w)
            \<or> \<not> cache_fresh t_read (cached_entry (storage_local w) k) \<longrightarrow>
          fetch_log (snd (onMessage t_read t_write t_slot (WORD_DETECTED k url ts) w))
            = word_request k # fetch_log w
          \<and> fst (fetchWordData t_read t_write k w) = Inr None
          \<and> storage_local (snd (onMessage t_read t_write t_slot (WORD_DETECTED k url ts) w))
            = storage_local w)
     \<and> (\<not> storage_rejects w (storage_calls w)
            \<and> cache_fresh t_read (cached_entry (storage_local w) k) \<longrightarrow>
          fetch_log (snd (onMessage t_read t_write t_slot (WORD_DETECTED k url ts) w))
            = fetch_log w)
     \<and> isl (fst (wordApi_getWord k w))
     \<and> length (fetch_log (snd (wordApi_getWord k w))) = length (fetch_log w) + 3
     \<and> storage_local (snd (wordApi_getWord k w)) = storage_local w"
proof -
  have f: "fetch_fails (network w (length (fetch_log w)))"
    using assms by blast
  have "fetch_log (snd (onMessage t_read t_write t_slot (WORD_DETECTED k url ts) w))
            = word_request k # fetch_log w
          \<and> fst (fetchWordData t_read t_write k w) = Inr None
          \<and> storage_local (snd (onMessage t_read t_write t_slot (WORD_DETECTED k url ts) w))
            = storage_local w"
    if "storage_rejects w (storage_calls w)
            \<or> \<not> cache_fresh t_read (cached_entry (storage_local w) k)"
    using that by (auto simp add: fetchWordData_failing[OF f] await_def resolve_def)
  moreover have "fetch_log (snd (onMessage t_read t_write t_slot (WORD_DETECTED k url ts) w))
            = fetch_log w"
    if "\<not> storage_rejects w (storage_calls w)
            \<and> cache_fresh t_read (cached_entry (storage_local w) k)"
    using that
    by (auto simp add: fetchWordData_failing[OF f] await_def resolve_def setCurrentWord_def
        try_catch_def storage_local_set_def storage_call_def Let_def split: option.splits)
  ultimately show ?thesis
    using getWord_failing[OF assms, of k] by blast
qed

theorem failed_resolution_attempts_witness:
  "fetch_log (snd (onMessage 0 0 0 (WORD_DETECTED ''cat'' [] 0) offline_world))
     = [word_request ''cat'']
   \<and> fst (fetchWordData 0 0 ''cat'' offline_world) = Inr None
   \<and> storage_local (snd (onMessage 0 0 0 (WORD_DETECTED ''cat'' [] 0) offline_world)) CURRENT_WORD
     = None
   \<and> length (fetch_log (snd (wordApi_getWord ''cat'' offline_world))) = 3"
proof -
  have h: "\<forall>i. fetch_fails (network offline_world i)"
    by (simp add: offline_world_def example_world_def fetch_fails_def)
  have m: "\<not> cache_fresh 0 (cached_entry (storage_local offline_world) ''cat'')"
    "fetch_log offline_world = []" "storage_local offline_world CURRENT_WORD = None"
    by (simp_all add: offline_world_def example_world_def cached_entry_def)
  show ?thesis
    using failed_resolution_attempts[OF h, of 0 "''cat''" 0 0 "[]" 0] m by simp
qed

text \<open>The claim as stated fails: with an empty store and a network on which every
  \<^verbatim>\<open>fetch\<close> fails, the handler issues one request, not three.\<close>

theorem resolution_three_attempts_counterexample:
  "network offline_world 0 = FetchFailed
   \<and> network offline_world 1 = FetchFailed
   \<and> network offline_world 2 = FetchFailed
   \<and> length (fetch_log offline_world) = 0
   \<and> length (fetch_log (snd (onMessage 0 0 0 (WORD_DETECTED ''cat'' [] 0) offline_world))) = 1
   \<and> length (fetch_log (snd (onMessage 0 0 0 (WORD_DETECTED ''cat'' [] 0) offline_world))) \<noteq> 3"
  by (simp add: fetchWordData_def getCachedWordData_eval await_def try_catch_def resolve_def
      fetch_def cached_entry_def offline_world_def example_world_def Let_def)

end
